theory Spec2Isabelle
  imports Complex_Main "HOL-Library.Word"
begin

section \<open>Data model\<close>

text \<open>
  The two functions of \<^verbatim>\<open>base_app.py\<close> that compute anything are
  \<^verbatim>\<open>preprocess_image\<close> and \<^verbatim>\<open>postprocess_mask\<close>. They work on numpy arrays and
  on Pillow images; both libraries are modelled here as far as the two functions use them.
\<close>

subsection \<open>Errors\<close>

text \<open>
  \<^verbatim>\<open>ValueError(f"Unexpected mask shape: {mask.shape}")\<close> is the one exception the source
  raises itself; its message carries the shape. The others come from the libraries:
  numpy's \<^verbatim>\<open>IndexError\<close> for index 0 on an axis of size 0 (or too many indices),
  Pillow's \<^verbatim>\<open>ValueError\<close> for a requested width or height below 1 in \<^verbatim>\<open>resize\<close>,
  and Pillow's refusal of an array it has no image mode for.
\<close>

datatype msg = Unexpected_mask_shape "nat list" | Size_not_positive

datatype error = ValueError msg | IndexError | TypeError

subsection \<open>numpy arrays\<close>

text \<open>
  An array is its shape and its buffer in row-major order, as numpy stores a C-contiguous
  array. The element type is the dtype: \<open>8 word\<close> for \<^verbatim>\<open>uint8\<close>, \<open>bool\<close>,
  and \<open>npfloat\<close> for the floating-point dtypes.
\<close>

record 'a ndarray =
  shape :: "nat list"
  data :: "'a list"

definition wf_ndarray :: "'a ndarray \<Rightarrow> bool" where
  "wf_ndarray a \<longleftrightarrow> length (data a) = prod_list (shape a)"

text \<open>
  A floating-point value is the real number it denotes, an infinity, or NaN. Only
  comparisons are taken on model outputs, and IEEE comparisons are exact; every comparison
  with NaN is false.
\<close>

datatype npfloat = Fin real | PosInf | NegInf | NaN

fun greater_f :: "npfloat \<Rightarrow> real \<Rightarrow> bool" where
  "greater_f (Fin r) c = (c < r)"
| "greater_f PosInf c = True"
| "greater_f NegInf c = False"
| "greater_f NaN c = False"

fun less_equal_f :: "npfloat \<Rightarrow> real \<Rightarrow> bool" where
  "less_equal_f (Fin r) c = (r \<le> c)"
| "less_equal_f PosInf c = False"
| "less_equal_f NegInf c = True"
| "less_equal_f NaN c = False"

text \<open>Multi-index reads of a 2-, 3- and 4-axis array (row-major offsets).\<close>

definition at2 :: "'a ndarray \<Rightarrow> nat \<Rightarrow> nat \<Rightarrow> 'a" where
  "at2 a i j = data a ! (i * (shape a ! 1) + j)"

definition at3 :: "'a ndarray \<Rightarrow> nat \<Rightarrow> nat \<Rightarrow> nat \<Rightarrow> 'a" where
  "at3 a i j k = data a ! ((i * (shape a ! 1) + j) * (shape a ! 2) + k)"

definition at4 :: "'a ndarray \<Rightarrow> nat \<Rightarrow> nat \<Rightarrow> nat \<Rightarrow> nat \<Rightarrow> 'a" where
  "at4 a b i j k =
     data a ! (((b * (shape a ! 1) + i) * (shape a ! 2) + j) * (shape a ! 3) + k)"

text \<open>
  \<^verbatim>\<open>a[0, ..., 0]\<close>: index 0 on the first and on the last axis, all of the axes between.
  With fewer than two axes numpy raises IndexError (too many indices), and so it does when
  the first or the last axis has size 0. Entry \<open>k\<close> of the result (row-major over the
  middle axes) lies at offset \<open>k * c\<close> of the buffer, \<open>c\<close> the size of the last axis.
\<close>

definition getitem_0_ellipsis_0 :: "'a ndarray \<Rightarrow> error + 'a ndarray" where
  "getitem_0_ellipsis_0 a =
     (let s = shape a in
      if length s < 2 then Inl IndexError
      else if hd s = 0 \<or> last s = 0 then Inl IndexError
      else Inr \<lparr>shape = butlast (tl s),
                data = map (\<lambda>k. data a ! (k * last s)) [0..<prod_list (butlast (tl s))]\<rparr>)"

text \<open>\<^verbatim>\<open>a[..., 0]\<close>: index 0 on the last axis.\<close>

definition getitem_ellipsis_0 :: "'a ndarray \<Rightarrow> error + 'a ndarray" where
  "getitem_ellipsis_0 a =
     (let s = shape a in
      if s = [] then Inl IndexError
      else if last s = 0 then Inl IndexError
      else Inr \<lparr>shape = butlast s,
                data = map (\<lambda>k. data a ! (k * last s)) [0..<prod_list (butlast s)]\<rparr>)"

text \<open>\<^verbatim>\<open>a > c\<close>, elementwise, on a floating-point array.\<close>

definition greater :: "npfloat ndarray \<Rightarrow> real \<Rightarrow> bool ndarray" where
  "greater a c = \<lparr>shape = shape a, data = map (\<lambda>x. greater_f x c) (data a)\<rparr>"

text \<open>\<^verbatim>\<open>a.astype(np.uint8)\<close> on a boolean array: True is 1, False is 0.\<close>

definition astype_uint8 :: "bool ndarray \<Rightarrow> 8 word ndarray" where
  "astype_uint8 a = \<lparr>shape = shape a, data = map (\<lambda>b. if b then 1 else 0) (data a)\<rparr>"

text \<open>\<^verbatim>\<open>a * n\<close> on a \<^verbatim>\<open>uint8\<close> array and a Python int that fits: the result stays
  \<^verbatim>\<open>uint8\<close> and the product wraps modulo 256.\<close>

definition multiply :: "8 word ndarray \<Rightarrow> 8 word \<Rightarrow> 8 word ndarray" where
  "multiply a n = \<lparr>shape = shape a, data = map (\<lambda>x. x * n) (data a)\<rparr>"

text \<open>
  \<^verbatim>\<open>a / d\<close> on a \<^verbatim>\<open>uint8\<close> array and a Python float: a \<^verbatim>\<open>float64\<close> array. The
  quotient of the reals is rounded to a representable number; the rounding \<open>rnd\<close> is a
  parameter of the model (the identity gives exact real division).
\<close>

definition true_divide :: "(real \<Rightarrow> real) \<Rightarrow> 8 word ndarray \<Rightarrow> real \<Rightarrow> npfloat ndarray" where
  "true_divide rnd a d =
     \<lparr>shape = shape a, data = map (\<lambda>x. Fin (rnd (real (unat x) / d))) (data a)\<rparr>"

text \<open>\<^verbatim>\<open>np.stack([a] * 3, axis=-1)\<close>: a new last axis of size 3, each entry three times.\<close>

definition stack3 :: "'a ndarray \<Rightarrow> 'a ndarray" where
  "stack3 a = \<lparr>shape = shape a @ [3], data = concat (map (\<lambda>x. [x, x, x]) (data a))\<rparr>"

text \<open>\<^verbatim>\<open>np.expand_dims(a, axis=0)\<close>: a new first axis of size 1, the buffer as it is.\<close>

definition expand_dims_0 :: "'a ndarray \<Rightarrow> 'a ndarray" where
  "expand_dims_0 a = \<lparr>shape = 1 # shape a, data = data a\<rparr>"

text \<open>
  The promotion numpy applies to a \<^verbatim>\<open>uint8\<close> array that is compared with a Python
  float: each entry becomes the floating-point number of the same value.
\<close>

definition promote_float :: "8 word ndarray \<Rightarrow> npfloat ndarray" where
  "promote_float a = \<lparr>shape = shape a, data = map (\<lambda>x. Fin (real (unat x))) (data a)\<rparr>"

subsection \<open>Pillow images\<close>

text \<open>
  An image has a mode, a size (width, height) and its pixels, row by row with the bands
  of a pixel next to each other. The modes modelled are those with 8 bits per band, whose
  arrays are \<^verbatim>\<open>uint8\<close>; the modes \<^verbatim>\<open>1\<close>, \<^verbatim>\<open>I\<close>, \<^verbatim>\<open>I;16\<close> and \<^verbatim>\<open>F\<close> are not.
\<close>

datatype img_mode = Mode_L | Mode_P | Mode_LA | Mode_RGB | Mode_YCbCr | Mode_RGBA | Mode_CMYK

fun bands :: "img_mode \<Rightarrow> nat" where
  "bands Mode_L = 1"
| "bands Mode_P = 1"
| "bands Mode_LA = 2"
| "bands Mode_RGB = 3"
| "bands Mode_YCbCr = 3"
| "bands Mode_RGBA = 4"
| "bands Mode_CMYK = 4"

record image =
  mode :: img_mode
  size_im :: "nat \<times> nat"
  im_data :: "8 word list"

definition wf_image :: "image \<Rightarrow> bool" where
  "wf_image im \<longleftrightarrow>
     length (im_data im) = snd (size_im im) * fst (size_im im) * bands (mode im)"

text \<open>
  \<^verbatim>\<open>np.array(image)\<close>: shape (height, width) for a one-band image and
  (height, width, bands) otherwise.
\<close>

definition np_array :: "image \<Rightarrow> 8 word ndarray" where
  "np_array im =
     (case size_im im of (w, h) \<Rightarrow>
        \<lparr>shape = (if bands (mode im) = 1 then [h, w] else [h, w, bands (mode im)]),
         data = im_data im\<rparr>)"

text \<open>
  \<^verbatim>\<open>Image.fromarray(a)\<close> on a \<^verbatim>\<open>uint8\<close> array: two axes give an image of mode L
  and size (shape[1], shape[0]); three axes with a last axis of size 3 or 4 give RGB or
  RGBA. Other arrays are outside what is modelled and are refused.
\<close>

definition fromarray :: "8 word ndarray \<Rightarrow> error + image" where
  "fromarray a =
     (case shape a of
        [h, w] \<Rightarrow> Inr \<lparr>mode = Mode_L, size_im = (w, h), im_data = data a\<rparr>
      | [h, w, c] \<Rightarrow>
          (if c = 3 then Inr \<lparr>mode = Mode_RGB, size_im = (w, h), im_data = data a\<rparr>
           else if c = 4 then Inr \<lparr>mode = Mode_RGBA, size_im = (w, h), im_data = data a\<rparr>
           else Inl TypeError)
      | _ \<Rightarrow> Inl TypeError)"

text \<open>
  \<^verbatim>\<open>image.resize(size)\<close>, \<open>size\<close> being (width, height). Pillow returns a copy when
  the size is the image's own, raises ValueError when the requested width or height is
  below 1, and otherwise resamples into an image of the same mode and the requested size.
  The spec leaves the interpolation open, so the resampler is a parameter: \<open>rs im size k\<close>
  is entry \<open>k\<close> of the new pixel buffer.
\<close>

type_synonym resampler = "image \<Rightarrow> nat \<times> nat \<Rightarrow> nat \<Rightarrow> 8 word"

definition resize :: "resampler \<Rightarrow> image \<Rightarrow> nat \<times> nat \<Rightarrow> error + image" where
  "resize rs im sz =
     (if size_im im = sz then Inr im
      else if fst sz < 1 \<or> snd sz < 1 then Inl (ValueError Size_not_positive)
      else Inr \<lparr>mode = mode im, size_im = sz,
                im_data = map (rs im sz) [0..<snd sz * fst sz * bands (mode im)]\<rparr>)"

text \<open>
  Nearest-neighbour resampling, one resampler among those Pillow offers: entry \<open>k\<close> of
  the new buffer is band \<open>b\<close> of pixel (x, y), read from the source pixel
  (x * w div tw, y * h div th).
\<close>

definition nearest :: resampler where
  "nearest im sz k =
     (let n = bands (mode im); tw = fst sz; th = snd sz;
          w = fst (size_im im); h = snd (size_im im);
          b = k mod n; x = (k div n) mod tw; y = (k div n) div tw
      in im_data im ! (((y * h div th) * w + x * w div tw) * n + b))"

section \<open>The two functions of the application\<close>

text \<open>
  \<^verbatim>\<open>
  def preprocess_image(image, target_size=(256, 256)):
      image = image.resize(target_size)
      image_array = np.array(image) / 255.0
      if len(image_array.shape) == 4:  # Grayscale image
          image_array = np.stack([image_array] * 3, axis=-1)  # Convert to RGB
      image_array = np.expand_dims(image_array, axis=0)
      return image_array
  \<close>
\<close>

definition default_target_size :: "nat \<times> nat" where
  "default_target_size = (256, 256)"

definition preprocess_image ::
  "resampler \<Rightarrow> (real \<Rightarrow> real) \<Rightarrow> image \<Rightarrow> nat \<times> nat \<Rightarrow> error + npfloat ndarray" where
  "preprocess_image rs rnd img target_sz =
     (case resize rs img target_sz of
        Inl e \<Rightarrow> Inl e
      | Inr img \<Rightarrow>
          (let image_array = true_divide rnd (np_array img) 255;
               image_array = (if length (shape image_array) = 4 then stack3 image_array
                              else image_array);
               image_array = expand_dims_0 image_array
           in Inr image_array))"

text \<open>
  \<^verbatim>\<open>
  def postprocess_mask(mask):
      if len(mask.shape) == 4:
          mask = mask[0, ..., 0]
      elif len(mask.shape) == 3:
          mask = mask[..., 0]
      elif len(mask.shape) == 2:
          pass
      else:
          raise ValueError(f"Unexpected mask shape: {mask.shape}")
      mask = (mask > 0.5).astype(np.uint8) * 255
      return Image.fromarray(mask)
  \<close>
\<close>

definition postprocess_mask :: "npfloat ndarray \<Rightarrow> error + image" where
  "postprocess_mask msk =
     (case (if length (shape msk) = 4 then getitem_0_ellipsis_0 msk
            else if length (shape msk) = 3 then getitem_ellipsis_0 msk
            else if length (shape msk) = 2 then Inr msk
            else Inl (ValueError (Unexpected_mask_shape (shape msk)))) of
        Inl e \<Rightarrow> Inl e
      | Inr msk \<Rightarrow> fromarray (multiply (astype_uint8 (greater msk (1/2))) 255))"

text \<open>The pixel of a one-band image at column \<open>x\<close> and row \<open>y\<close>.\<close>

definition getpixel :: "image \<Rightarrow> nat \<times> nat \<Rightarrow> 8 word" where
  "getpixel im xy = im_data im ! (snd xy * fst (size_im im) + fst xy)"

section \<open>Properties of the array operations\<close>

lemma shape_expand_dims_0: "shape (expand_dims_0 a) = 1 # shape a"
  by (simp add: expand_dims_0_def)

lemma shape_true_divide: "shape (true_divide rnd a d) = shape a"
  by (simp add: true_divide_def)

lemma np_array_axes: "length (shape (np_array im)) = 2 \<or> length (shape (np_array im)) = 3"
  by (simp add: np_array_def split: prod.splits)


lemma threshold_scale:
  "data (multiply (astype_uint8 (greater a c)) 255) =
     map (\<lambda>x. if greater_f x c then 255 else 0) (data a)"
  by (simp add: multiply_def astype_uint8_def greater_def)

lemma shape_threshold_scale:
  "shape (multiply (astype_uint8 (greater a c)) 255) = shape a"
  by (simp add: multiply_def astype_uint8_def greater_def)

subsection \<open>The branches of postprocess_mask\<close>

text \<open>
  What \<^verbatim>\<open>postprocess_mask\<close> returns, by the number of axes of its argument. Entry
  \<open>k\<close> of the collapsed array is entry \<open>k * c\<close> of the buffer: channel 0 of pixel
  \<open>k\<close> of the first batch entry.
\<close>

lemma postprocess_mask_2:
  assumes "shape m = [h, w]"
  shows "postprocess_mask m =
           Inr \<lparr>mode = Mode_L, size_im = (w, h),
                im_data = map (\<lambda>x. if greater_f x (1/2) then 255 else 0) (data m)\<rparr>"
  using assms
  by (simp add: postprocess_mask_def fromarray_def threshold_scale shape_threshold_scale)

lemma postprocess_mask_3:
  assumes "shape m = [h, w, c]" and "0 < c"
  shows "postprocess_mask m =
           Inr \<lparr>mode = Mode_L, size_im = (w, h),
                im_data = map (\<lambda>k. if greater_f (data m ! (k * c)) (1/2) then 255 else 0)
                              [0..<h * w]\<rparr>"
  using assms
  by (simp add: postprocess_mask_def getitem_ellipsis_0_def fromarray_def threshold_scale
      shape_threshold_scale)

lemma postprocess_mask_3_empty:
  assumes "shape m = [h, w, 0]"
  shows "postprocess_mask m = Inl IndexError"
  using assms by (simp add: postprocess_mask_def getitem_ellipsis_0_def)

lemma postprocess_mask_4:
  assumes "shape m = [b, h, w, c]" and "0 < b" and "0 < c"
  shows "postprocess_mask m =
           Inr \<lparr>mode = Mode_L, size_im = (w, h),
                im_data = map (\<lambda>k. if greater_f (data m ! (k * c)) (1/2) then 255 else 0)
                              [0..<h * w]\<rparr>"
  using assms
  by (simp add: postprocess_mask_def getitem_0_ellipsis_0_def fromarray_def threshold_scale
      shape_threshold_scale)

lemma postprocess_mask_4_empty:
  assumes "shape m = [b, h, w, c]" and "b = 0 \<or> c = 0"
  shows "postprocess_mask m = Inl IndexError"
  using assms by (auto simp add: postprocess_mask_def getitem_0_ellipsis_0_def)

lemma postprocess_mask_other:
  assumes "length (shape m) \<noteq> 2" and "length (shape m) \<noteq> 3" and "length (shape m) \<noteq> 4"
  shows "postprocess_mask m = Inl (ValueError (Unexpected_mask_shape (shape m)))"
  using assms by (simp add: postprocess_mask_def)

lemma length_2E: "length xs = 2 \<Longrightarrow> \<exists>a b. xs = [a, b]"
  by (cases xs; cases "tl xs") auto

lemma length_3E: "length xs = 3 \<Longrightarrow> \<exists>a b c. xs = [a, b, c]"
  by (cases xs; cases "tl xs"; cases "tl (tl xs)") auto

lemma length_4E: "length xs = 4 \<Longrightarrow> \<exists>a b c d. xs = [a, b, c, d]"
  by (cases xs; cases "tl xs"; cases "tl (tl xs)"; cases "tl (tl (tl xs))") auto

lemma postprocess_mask_result:
  assumes "postprocess_mask m = Inr img"
  shows "mode img = Mode_L \<and> (\<forall>p \<in> set (im_data img). p = 0 \<or> p = 255)"
proof -
  consider (two) "length (shape m) = 2" | (three) "length (shape m) = 3"
    | (four) "length (shape m) = 4"
    | (other) "length (shape m) \<noteq> 2" "length (shape m) \<noteq> 3" "length (shape m) \<noteq> 4"
    by blast
  then show ?thesis
  proof cases
    case two
    then obtain h w where s: "shape m = [h, w]" using length_2E by blast
    from postprocess_mask_2 [OF s] assms show ?thesis by auto
  next
    case three
    then obtain h w c where s: "shape m = [h, w, c]" using length_3E by blast
    show ?thesis
    proof (cases "c = 0")
      case True
      with s assms show ?thesis by (simp add: postprocess_mask_3_empty)
    next
      case False
      then have "0 < c" by simp
      from postprocess_mask_3 [OF s this] assms show ?thesis by auto
    qed
  next
    case four
    then obtain b h w c where s: "shape m = [b, h, w, c]" using length_4E by blast
    show ?thesis
    proof (cases "b = 0 \<or> c = 0")
      case True
      from postprocess_mask_4_empty [OF s True] assms show ?thesis by simp
    next
      case False
      then have "0 < b" "0 < c" by simp_all
      from postprocess_mask_4 [OF s this] assms show ?thesis by auto
    qed
  next
    case other
    from postprocess_mask_other [OF other] assms show ?thesis by simp
  qed
qed

subsection \<open>Row-major offsets\<close>

lemma row_major_bound: "i < h \<Longrightarrow> j < w \<Longrightarrow> i * w + j < h * (w::nat)"
proof -
  assume a: "i < h" "j < w"
  then have "i * w + j < i * w + w" by simp
  also have "\<dots> = Suc i * w" by simp
  also have "\<dots> \<le> h * w" using a(1) by (intro mult_le_mono1) simp
  finally show ?thesis .
qed

lemma row_major_split:
  assumes "k < h * (w::nat)"
  shows "k div w < h \<and> k mod w < w \<and> k = (k div w) * w + k mod w"
proof -
  from assms have w: "0 < w" by (cases w) simp_all
  have "k div w < h" using assms w by (simp add: less_mult_imp_div_less)
  with w show ?thesis by simp
qed

lemma at4_first: "shape m = [b, h, w, c] \<Longrightarrow> at4 m 0 i j 0 = data m ! ((i * w + j) * c)"
  by (simp add: at4_def)

lemma at3_first: "shape m = [h, w, c] \<Longrightarrow> at3 m i j 0 = data m ! ((i * w + j) * c)"
  by (simp add: at3_def)

lemma at2_offset: "shape m = [h, w] \<Longrightarrow> at2 m i j = data m ! (i * w + j)"
  by (simp add: at2_def)

lemma first_channel_cong:
  assumes "\<forall>i<h. \<forall>j<w. data m1 ! ((i * w + j) * c) = data m2 ! ((i * w + j) * c)"
  shows "map (\<lambda>k. if greater_f (data m1 ! (k * c)) r then 255 else (0::8 word)) [0..<h * w] =
         map (\<lambda>k. if greater_f (data m2 ! (k * c)) r then 255 else 0) [0..<h * w]"
proof (rule map_cong [OF refl])
  fix k assume "k \<in> set [0..<h * w]"
  then have "k < h * w" by simp
  from row_major_split [OF this] assms
  have "data m1 ! (k * c) = data m2 ! (k * c)" by metis
  then show "(if greater_f (data m1 ! (k * c)) r then 255 else (0::8 word)) =
             (if greater_f (data m2 ! (k * c)) r then 255 else 0)" by simp
qed

lemma less_equal_not_greater: "less_equal_f x c \<Longrightarrow> \<not> greater_f x c"
  by (cases x) auto

lemma threshold_pixel:
  assumes "im_data img = map (\<lambda>k. if greater_f (f k) (1/2) then 255 else 0) [0..<h * w]"
    and "size_im img = (w, h)" and "i < h" and "j < w"
  shows "(less_equal_f (f (i * w + j)) (1/2) \<longrightarrow> getpixel img (j, i) = 0)
       \<and> (greater_f (f (i * w + j)) (1/2) \<longrightarrow> getpixel img (j, i) = 255)"
  using assms row_major_bound [of i h j w]
  by (auto simp add: getpixel_def dest: less_equal_not_greater)

lemma promote_threshold:
  "p = 0 \<or> p = 255 \<Longrightarrow>
     (if greater_f (Fin (real (unat (p::8 word)))) (1/2) then 255 else 0) = p"
  by auto

subsection \<open>Resizing and scaling\<close>

lemma resize_result:
  assumes "resize rs img ts = Inr img'"
  shows "mode img' = mode img \<and> size_im img' = ts"
  using assms by (auto simp add: resize_def split: if_splits)

lemma resize_positive:
  assumes "0 < fst ts" and "0 < snd ts"
  shows "\<exists>img'. resize rs img ts = Inr img'"
  using assms by (simp add: resize_def)

lemma resize_default: "\<exists>img'. resize rs img default_target_size = Inr img'"
  by (rule resize_positive) (simp_all add: default_target_size_def)

lemma shape_np_array:
  "shape (np_array img) =
     snd (size_im img) # fst (size_im img) #
       (if bands (mode img) = 1 then [] else [bands (mode img)])"
  by (simp add: np_array_def split: prod.splits)

lemma preprocess_image_resized:
  assumes "resize rs img ts = Inr img'"
  shows "preprocess_image rs rnd img ts =
           Inr (expand_dims_0 (true_divide rnd (np_array img') 255))"
  using assms np_array_axes [of img']
  by (auto simp add: preprocess_image_def shape_true_divide Let_def)

lemma preprocess_image_error:
  assumes "resize rs img ts = Inl e"
  shows "preprocess_image rs rnd img ts = Inl e"
  using assms by (simp add: preprocess_image_def)

lemma scaled_range:
  assumes "mono rnd" and "rnd 0 = 0" and "rnd 1 = 1"
  shows "0 \<le> rnd (real (unat (x::8 word)) / 255) \<and> rnd (real (unat x) / 255) \<le> 1"
proof -
  have "unat x < 2 ^ 8" using unsigned_less [of x] by simp
  then have "unat x \<le> 255" by simp
  then have "real (unat x) \<le> real 255" by (simp only: of_nat_le_iff)
  then have u: "real (unat x) \<le> 255" by simp
  have "0 \<le> real (unat x)" by (rule of_nat_0_le_iff)
  then have q0: "0 \<le> real (unat x) / 255" by (rule divide_nonneg_nonneg) simp
  have q1: "real (unat x) / 255 \<le> 1" using u by simp
  have "rnd 0 \<le> rnd (real (unat x) / 255)"
    using assms(1) q0 by (rule monoD)
  moreover have "rnd (real (unat x) / 255) \<le> rnd 1"
    using assms(1) q1 by (rule monoD)
  ultimately show ?thesis using assms(2,3) by simp
qed

subsection \<open>Well-formed arrays and images\<close>

text \<open>
  The operations keep buffers and shapes in step: a well-formed image gives a well-formed
  array and the other way round, so the offsets used above stay inside the buffer. The
  arrays that \<^verbatim>\<open>fromarray\<close> refuses never reach it from \<^verbatim>\<open>postprocess_mask\<close>, which
  only passes an array of 2 axes. (An array of 2 axes with an empty side gives an empty
  image.)
\<close>

lemma wf_np_array: "wf_image img \<Longrightarrow> wf_ndarray (np_array img)"
  by (auto simp add: wf_image_def wf_ndarray_def np_array_def split: prod.splits)

lemma wf_resize:
  assumes "wf_image img" and "resize rs img ts = Inr img'"
  shows "wf_image img'"
  using assms by (auto simp add: resize_def wf_image_def split: if_splits)

lemma wf_preprocess_image:
  assumes "wf_image img" and "preprocess_image rs rnd img ts = Inr t"
  shows "wf_ndarray t"
proof -
  from assms(2) obtain img' where r: "resize rs img ts = Inr img'"
    by (cases "resize rs img ts") (simp_all add: preprocess_image_def)
  from wf_np_array [OF wf_resize [OF assms(1) r]]
  have "wf_ndarray (expand_dims_0 (true_divide rnd (np_array img') 255))"
    by (simp add: wf_ndarray_def expand_dims_0_def true_divide_def)
  with preprocess_image_resized [OF r, of rnd] assms(2) show ?thesis by simp
qed

lemma postprocess_mask_outcomes:
  "postprocess_mask m = Inl IndexError
   \<or> postprocess_mask m = Inl (ValueError (Unexpected_mask_shape (shape m)))
   \<or> (\<exists>img. postprocess_mask m = Inr img)"
proof -
  consider (two) "length (shape m) = 2" | (three) "length (shape m) = 3"
    | (four) "length (shape m) = 4"
    | (other) "length (shape m) \<noteq> 2" "length (shape m) \<noteq> 3" "length (shape m) \<noteq> 4"
    by blast
  then show ?thesis
  proof cases
    case two
    then obtain h w where s: "shape m = [h, w]" using length_2E by blast
    from postprocess_mask_2 [OF s] show ?thesis by simp
  next
    case three
    then obtain h w c where s: "shape m = [h, w, c]" using length_3E by blast
    show ?thesis
    proof (cases "c = 0")
      case True
      with s show ?thesis by (simp add: postprocess_mask_3_empty)
    next
      case False
      then have "0 < c" by simp
      from postprocess_mask_3 [OF s this] show ?thesis by simp
    qed
  next
    case four
    then obtain b h w c where s: "shape m = [b, h, w, c]" using length_4E by blast
    show ?thesis
    proof (cases "b = 0 \<or> c = 0")
      case True
      from postprocess_mask_4_empty [OF s True] show ?thesis by simp
    next
      case False
      then have "0 < b" "0 < c" by simp_all
      from postprocess_mask_4 [OF s this] show ?thesis by simp
    qed
  next
    case other
    from postprocess_mask_other [OF other] show ?thesis by simp
  qed
qed

lemma postprocess_mask_no_TypeError: "postprocess_mask m \<noteq> Inl TypeError"
  using postprocess_mask_outcomes [of m] by auto

lemma wf_postprocess_mask:
  assumes "wf_ndarray m" and "postprocess_mask m = Inr img"
  shows "wf_image img"
proof -
  consider (two) "length (shape m) = 2" | (three) "length (shape m) = 3"
    | (four) "length (shape m) = 4"
    | (other) "length (shape m) \<noteq> 2" "length (shape m) \<noteq> 3" "length (shape m) \<noteq> 4"
    by blast
  then show ?thesis
  proof cases
    case two
    then obtain h w where s: "shape m = [h, w]" using length_2E by blast
    from postprocess_mask_2 [OF s] assms s show ?thesis
      by (auto simp add: wf_image_def wf_ndarray_def)
  next
    case three
    then obtain h w c where s: "shape m = [h, w, c]" using length_3E by blast
    show ?thesis
    proof (cases "c = 0")
      case True
      with s assms show ?thesis by (simp add: postprocess_mask_3_empty)
    next
      case False
      then have "0 < c" by simp
      from postprocess_mask_3 [OF s this] assms show ?thesis by (auto simp add: wf_image_def)
    qed
  next
    case four
    then obtain b h w c where s: "shape m = [b, h, w, c]" using length_4E by blast
    show ?thesis
    proof (cases "b = 0 \<or> c = 0")
      case True
      from postprocess_mask_4_empty [OF s True] assms show ?thesis by simp
    next
      case False
      then have "0 < b" "0 < c" by simp_all
      from postprocess_mask_4 [OF s this] assms show ?thesis by (auto simp add: wf_image_def)
    qed
  next
    case other
    from postprocess_mask_other [OF other] assms show ?thesis by simp
  qed
qed

section \<open>The claims about preprocess_image\<close>

text \<open>
  C1. The claim: for every input image and target size the output has shape
  (1, h, w, 3). The source means to get there: the branch commented \<^verbatim>\<open># Grayscale image\<close>
  stacks the array three times (\<^verbatim>\<open># Convert to RGB\<close>). Its test is
  \<^verbatim>\<open>len(image_array.shape) == 4\<close>, which the array of an image never satisfies, so a
  grayscale image goes through with two axes and comes out with three: for a 2 by 2 image
  of mode L and the default target size the result has shape (1, 256, 256).
\<close>

theorem preprocess_image_grayscale_shape:
  "map_sum id shape
     (preprocess_image nearest (\<lambda>x. x)
        \<lparr>mode = Mode_L, size_im = (2, 2), im_data = [0, 85, 170, 255]\<rparr> default_target_size)
   = Inr [1, 256, 256]"
proof -
  let ?img = "\<lparr>mode = Mode_L, size_im = (2, 2), im_data = [0, 85, 170, 255]\<rparr>"
  obtain img' where r: "resize nearest ?img default_target_size = Inr img'"
    using resize_default by blast
  from resize_result [OF r] have "mode img' = Mode_L" "size_im img' = (256, 256)"
    by (simp_all add: default_target_size_def)
  then have "shape (expand_dims_0 (true_divide (\<lambda>x. x) (np_array img') 255)) = [1, 256, 256]"
    by (simp add: shape_expand_dims_0 shape_true_divide shape_np_array)
  with preprocess_image_resized [OF r, of "\<lambda>x. x"] show ?thesis by simp
qed

text \<open>
  C5. With pixels in 0..255 (the type of an 8-bit band), every entry of the result is a
  finite number in the closed interval from 0 to 1, and a result exists for every target
  size with positive sides. The rounding of the division is any monotone function that
  leaves 0 and 1 as they are; rounding to nearest is one, and so is no rounding at all.
\<close>

theorem preprocess_image_unit_interval:
  assumes "mono rnd" and "rnd 0 = 0" and "rnd 1 = 1"
  shows "(preprocess_image rs rnd img ts = Inr t \<longrightarrow>
            (\<forall>x \<in> set (data t). \<exists>r. x = Fin r \<and> 0 \<le> r \<and> r \<le> 1))
       \<and> (0 < fst ts \<and> 0 < snd ts \<longrightarrow> (\<exists>t'. preprocess_image rs rnd img ts = Inr t'))"
proof (intro conjI impI)
  assume r: "preprocess_image rs rnd img ts = Inr t"
  then obtain img' where i: "resize rs img ts = Inr img'"
    by (cases "resize rs img ts") (simp_all add: preprocess_image_def)
  from preprocess_image_resized [OF i, of rnd] r
  have "data t = map (\<lambda>x. Fin (rnd (real (unat x) / 255))) (data (np_array img'))"
    by (auto simp add: expand_dims_0_def true_divide_def)
  then show "\<forall>x \<in> set (data t). \<exists>r. x = Fin r \<and> 0 \<le> r \<and> r \<le> 1"
    using scaled_range [OF assms] by auto
next
  assume "0 < fst ts \<and> 0 < snd ts"
  then obtain img' where "resize rs img ts = Inr img'"
    using resize_positive [of ts rs img] by blast
  from preprocess_image_resized [OF this]
  show "\<exists>t'. preprocess_image rs rnd img ts = Inr t'" by blast
qed

text \<open>
  An instance of C5: an RGB pixel (0, 128, 255), resized to two pixels.
\<close>

theorem preprocess_image_unit_interval_witness:
  "mono (\<lambda>x::real. x)
   \<and> (\<exists>t. preprocess_image nearest (\<lambda>x. x)
             \<lparr>mode = Mode_RGB, size_im = (1, 1), im_data = [0, 128, 255]\<rparr> (2, 1) = Inr t
          \<and> (\<forall>x \<in> set (data t). \<exists>r. x = Fin r \<and> 0 \<le> r \<and> r \<le> 1))"
proof -
  let ?img = "\<lparr>mode = Mode_RGB, size_im = (1, 1), im_data = [0, 128, 255]\<rparr>"
  have m: "mono (\<lambda>x::real. x)" by (simp add: mono_def)
  have u: "\<And>t. (preprocess_image nearest (\<lambda>x. x) ?img (2, 1) = Inr t \<longrightarrow>
            (\<forall>x \<in> set (data t). \<exists>r. x = Fin r \<and> 0 \<le> r \<and> r \<le> 1))
       \<and> (0 < fst (2::nat, 1::nat) \<and> 0 < snd (2::nat, 1::nat) \<longrightarrow>
            (\<exists>t'. preprocess_image nearest (\<lambda>x. x) ?img (2, 1) = Inr t'))"
    by (rule preprocess_image_unit_interval [OF m]) simp_all
  then obtain t where "preprocess_image nearest (\<lambda>x. x) ?img (2, 1) = Inr t" by auto
  with u [of t] m show ?thesis by blast
qed

text \<open>
  C8. \<^verbatim>\<open>preprocess_image\<close> returns an array for every image, whatever its mode
  and size: with the default target size, and with every target size whose sides are
  positive. (A side below 1 is refused by Pillow's resize; that is a matter of the target
  size, not of the image.)
\<close>

theorem preprocess_image_total:
  "(\<exists>t. preprocess_image rs rnd img default_target_size = Inr t)
   \<and> (0 < fst ts \<and> 0 < snd ts \<longrightarrow> (\<exists>t. preprocess_image rs rnd img ts = Inr t))"
proof (intro conjI impI)
  obtain img' where "resize rs img default_target_size = Inr img'"
    using resize_default by blast
  from preprocess_image_resized [OF this]
  show "\<exists>t. preprocess_image rs rnd img default_target_size = Inr t" by blast
next
  assume "0 < fst ts \<and> 0 < snd ts"
  then obtain img' where "resize rs img ts = Inr img'"
    using resize_positive [of ts rs img] by blast
  from preprocess_image_resized [OF this]
  show "\<exists>t. preprocess_image rs rnd img ts = Inr t" by blast
qed

text \<open>
  An instance of C8: a 3 by 1 grayscale image, with the default target size and with
  the target size (2, 5).
\<close>

theorem preprocess_image_total_witness:
  "(\<exists>t. preprocess_image nearest (\<lambda>x. x)
          \<lparr>mode = Mode_L, size_im = (3, 1), im_data = [0, 128, 255]\<rparr> default_target_size
        = Inr t)
   \<and> (\<exists>t. preprocess_image nearest (\<lambda>x. x)
          \<lparr>mode = Mode_L, size_im = (3, 1), im_data = [0, 128, 255]\<rparr> (2, 5) = Inr t)"
  using preprocess_image_total
    [of nearest "\<lambda>x. x" "\<lparr>mode = Mode_L, size_im = (3, 1), im_data = [0, 128, 255]\<rparr>"
        "(2, 5)"]
  by simp

text \<open>
  C9. The replication branch is never taken. The scaled array of the resized image
  has 2 or 3 axes, so the test for 4 axes fails; the result is the scaled array with a
  batch axis in front, and its shape is (1, height, width) for a one-band image and
  (1, height, width, bands) otherwise: the channel structure of the input.
\<close>

theorem preprocess_image_replication_unreachable:
  assumes "resize rs img ts = Inr img'"
  shows "length (shape (true_divide rnd (np_array img') 255)) \<in> {2, 3}
       \<and> preprocess_image rs rnd img ts =
           Inr (expand_dims_0 (true_divide rnd (np_array img') 255))
       \<and> shape (expand_dims_0 (true_divide rnd (np_array img') 255)) =
           1 # snd ts # fst ts # (if bands (mode img) = 1 then [] else [bands (mode img)])"
proof (intro conjI)
  show "length (shape (true_divide rnd (np_array img') 255)) \<in> {2, 3}"
    using np_array_axes [of img'] by (auto simp add: shape_true_divide)
  show "preprocess_image rs rnd img ts =
          Inr (expand_dims_0 (true_divide rnd (np_array img') 255))"
    by (rule preprocess_image_resized [OF assms])
  show "shape (expand_dims_0 (true_divide rnd (np_array img') 255)) =
          1 # snd ts # fst ts # (if bands (mode img) = 1 then [] else [bands (mode img)])"
    using resize_result [OF assms]
    by (simp add: shape_expand_dims_0 shape_true_divide shape_np_array)
qed

text \<open>
  An instance of C9: a 2 by 2 grayscale image resized to width 1 and height 2 gives an
  array of shape (1, 2, 1), the last axis being the width, not a channel axis.
\<close>

theorem preprocess_image_replication_unreachable_witness:
  "resize nearest \<lparr>mode = Mode_L, size_im = (2, 2), im_data = [0, 85, 170, 255]\<rparr> (1, 2)
     = Inr \<lparr>mode = Mode_L, size_im = (1, 2), im_data = [0, 170]\<rparr>
   \<and> preprocess_image nearest (\<lambda>x. x)
        \<lparr>mode = Mode_L, size_im = (2, 2), im_data = [0, 85, 170, 255]\<rparr> (1, 2)
     = Inr (expand_dims_0 (true_divide (\<lambda>x. x)
              (np_array \<lparr>mode = Mode_L, size_im = (1, 2), im_data = [0, 170]\<rparr>) 255))
   \<and> shape (expand_dims_0 (true_divide (\<lambda>x. x)
              (np_array \<lparr>mode = Mode_L, size_im = (1, 2), im_data = [0, 170]\<rparr>) 255))
     = [1, 2, 1]"
proof -
  have r: "resize nearest \<lparr>mode = Mode_L, size_im = (2, 2), im_data = [0, 85, 170, 255]\<rparr> (1, 2)
     = Inr \<lparr>mode = Mode_L, size_im = (1, 2), im_data = [0, 170]\<rparr>"
    by (simp add: resize_def nearest_def upt_rec [of _ "numeral _"] upt_rec [of _ "Suc _"])
  from preprocess_image_replication_unreachable [OF r, of "\<lambda>x. x"] r
  show ?thesis by simp
qed

section \<open>The claims about postprocess_mask\<close>

text \<open>
  C2. \<^verbatim>\<open>postprocess_mask\<close> raises the ValueError that carries the shape exactly when
  the number of axes is not 2, 3 or 4, and it raises no other ValueError. In particular
  it raises it on every array of 1 axis and of 5 axes. An array of 2 axes, of 3 axes with
  a non-empty last axis, or of 4 axes with non-empty first and last axes gives an image.
\<close>

theorem postprocess_mask_invalid_shape:
  "(postprocess_mask m = Inl (ValueError (Unexpected_mask_shape (shape m)))
      \<longleftrightarrow> length (shape m) \<notin> {2, 3, 4})
   \<and> (\<forall>e. postprocess_mask m = Inl (ValueError e) \<longrightarrow> e = Unexpected_mask_shape (shape m))
   \<and> (length (shape m) = 1 \<or> length (shape m) = 5 \<longrightarrow>
        postprocess_mask m = Inl (ValueError (Unexpected_mask_shape (shape m))))
   \<and> (length (shape m) = 2
        \<or> length (shape m) = 3 \<and> last (shape m) \<noteq> 0
        \<or> length (shape m) = 4 \<and> hd (shape m) \<noteq> 0 \<and> last (shape m) \<noteq> 0
        \<longrightarrow> (\<exists>img. postprocess_mask m = Inr img))"
proof -
  consider (two) "length (shape m) = 2" | (three) "length (shape m) = 3"
    | (four) "length (shape m) = 4"
    | (other) "length (shape m) \<noteq> 2" "length (shape m) \<noteq> 3" "length (shape m) \<noteq> 4"
    by blast
  then show ?thesis
  proof cases
    case two
    then obtain h w where s: "shape m = [h, w]" using length_2E by blast
    show ?thesis using s by (simp add: postprocess_mask_2 [OF s])
  next
    case three
    then obtain h w c where s: "shape m = [h, w, c]" using length_3E by blast
    show ?thesis
    proof (cases "c = 0")
      case True
      with s have "postprocess_mask m = Inl IndexError"
        by (simp add: postprocess_mask_3_empty)
      with s True show ?thesis by simp
    next
      case False
      then have "0 < c" by simp
      from postprocess_mask_3 [OF s this] s show ?thesis by simp
    qed
  next
    case four
    then obtain b h w c where s: "shape m = [b, h, w, c]" using length_4E by blast
    show ?thesis
    proof (cases "b = 0 \<or> c = 0")
      case True
      from postprocess_mask_4_empty [OF s True] s True show ?thesis by auto
    next
      case False
      then have "0 < b" "0 < c" by simp_all
      from postprocess_mask_4 [OF s this] s show ?thesis by simp
    qed
  next
    case other
    from postprocess_mask_other [OF other] other show ?thesis by simp
  qed
qed

text \<open>
  Instances of C2: one axis, five axes, and a tensor of shape (1, 1, 2, 1).
\<close>

theorem postprocess_mask_invalid_shape_witness:
  "postprocess_mask \<lparr>shape = [3], data = [Fin 0, Fin 1, Fin 0]\<rparr>
     = Inl (ValueError (Unexpected_mask_shape [3]))
   \<and> postprocess_mask \<lparr>shape = [1, 1, 1, 1, 1], data = [Fin 1]\<rparr>
     = Inl (ValueError (Unexpected_mask_shape [1, 1, 1, 1, 1]))
   \<and> (\<exists>img. postprocess_mask \<lparr>shape = [1, 1, 2, 1], data = [Fin 1, Fin 0]\<rparr> = Inr img)"
proof (intro conjI)
  show "postprocess_mask \<lparr>shape = [3], data = [Fin 0, Fin 1, Fin 0]\<rparr>
     = Inl (ValueError (Unexpected_mask_shape [3]))"
    using postprocess_mask_invalid_shape
      [of "\<lparr>shape = [3], data = [Fin 0, Fin 1, Fin 0]\<rparr>", THEN conjunct1]
    by simp
  show "postprocess_mask \<lparr>shape = [1, 1, 1, 1, 1], data = [Fin 1]\<rparr>
     = Inl (ValueError (Unexpected_mask_shape [1, 1, 1, 1, 1]))"
    using postprocess_mask_invalid_shape
      [of "\<lparr>shape = [1, 1, 1, 1, 1], data = [Fin 1]\<rparr>", THEN conjunct1]
    by simp
  show "\<exists>img. postprocess_mask \<lparr>shape = [1, 1, 2, 1], data = [Fin 1, Fin 0]\<rparr> = Inr img"
    using postprocess_mask_invalid_shape
      [of "\<lparr>shape = [1, 1, 2, 1], data = [Fin 1, Fin 0]\<rparr>",
        THEN conjunct2, THEN conjunct2, THEN conjunct2]
    by simp
qed

text \<open>
  C3, as the claim states it, for every channel count: a tensor of shape (1, 2, 2, 0) has
  no channel 0, and \<^verbatim>\<open>mask[0, ..., 0]\<close> raises IndexError.
\<close>

theorem postprocess_mask_zero_channels_counterexample:
  "postprocess_mask \<lparr>shape = [1, 2, 2, 0], data = []\<rparr> = Inl IndexError"
  by (simp add: postprocess_mask_def getitem_0_ellipsis_0_def)

text \<open>
  C3, amended. For every tensor of shape (1, h, w, c) with at least one channel,
  \<^verbatim>\<open>postprocess_mask\<close> returns an image of mode L and size (w, h), whose array has shape
  (h, w), with h * w pixels, each 0 or 255.
\<close>

theorem postprocess_mask_4_axes:
  assumes "shape m = [1, h, w, c]" and "0 < c"
  shows "\<exists>img. postprocess_mask m = Inr img \<and> mode img = Mode_L \<and> size_im img = (w, h)
           \<and> shape (np_array img) = [h, w] \<and> length (im_data img) = h * w
           \<and> (\<forall>p \<in> set (im_data img). p = 0 \<or> p = 255)"
proof -
  have "postprocess_mask m =
          Inr \<lparr>mode = Mode_L, size_im = (w, h),
               im_data = map (\<lambda>k. if greater_f (data m ! (k * c)) (1/2) then 255 else 0)
                             [0..<h * w]\<rparr>"
    using postprocess_mask_4 [OF assms(1) _ assms(2)] by simp
  then show ?thesis by (auto simp add: np_array_def)
qed

text \<open>
  An instance of the amended C3: shape (1, 1, 2, 3).
\<close>

theorem postprocess_mask_4_axes_witness:
  "\<exists>img. postprocess_mask
            \<lparr>shape = [1, 1, 2, 3],
             data = [Fin (9/10), Fin 0, Fin 0, Fin (2/10), Fin 1, Fin 1]\<rparr> = Inr img
      \<and> mode img = Mode_L \<and> size_im img = (2, 1) \<and> shape (np_array img) = [1, 2]
      \<and> length (im_data img) = 2"
  using postprocess_mask_4_axes
    [of "\<lparr>shape = [1, 1, 2, 3],
           data = [Fin (9/10), Fin 0, Fin 0, Fin (2/10), Fin 1, Fin 1]\<rparr>" 1 2 3]
  by auto

text \<open>
  C4. The threshold is strict. For a tensor of 4 axes (non-empty first and last axes),
  of 3 axes (non-empty last axis) or of 2 axes, the pixel at row \<open>i\<close> and column \<open>j\<close>
  of the image is 0 when the entry of the first channel there is at most 0.5, and 255 when
  it is greater than 0.5. A tensor of shape (1, 4, 4, 1) with the rows
  0.1, 0.6, 0.4, 0.9 gives the image with the rows 0, 255, 0, 255.
\<close>

theorem postprocess_mask_threshold:
  "(shape m = [b, h, w, c] \<and> 0 < b \<and> 0 < c \<longrightarrow>
      (\<exists>img. postprocess_mask m = Inr img \<and>
         (\<forall>i<h. \<forall>j<w.
            (less_equal_f (at4 m 0 i j 0) (1/2) \<longrightarrow> getpixel img (j, i) = 0) \<and>
            (greater_f (at4 m 0 i j 0) (1/2) \<longrightarrow> getpixel img (j, i) = 255))))
   \<and> (shape m = [h, w, c] \<and> 0 < c \<longrightarrow>
      (\<exists>img. postprocess_mask m = Inr img \<and>
         (\<forall>i<h. \<forall>j<w.
            (less_equal_f (at3 m i j 0) (1/2) \<longrightarrow> getpixel img (j, i) = 0) \<and>
            (greater_f (at3 m i j 0) (1/2) \<longrightarrow> getpixel img (j, i) = 255))))
   \<and> (shape m = [h, w] \<and> wf_ndarray m \<longrightarrow>
      (\<exists>img. postprocess_mask m = Inr img \<and>
         (\<forall>i<h. \<forall>j<w.
            (less_equal_f (at2 m i j) (1/2) \<longrightarrow> getpixel img (j, i) = 0) \<and>
            (greater_f (at2 m i j) (1/2) \<longrightarrow> getpixel img (j, i) = 255))))
   \<and> postprocess_mask
        \<lparr>shape = [1, 4, 4, 1],
         data = [Fin (1/10), Fin (6/10), Fin (4/10), Fin (9/10),
                 Fin (1/10), Fin (6/10), Fin (4/10), Fin (9/10),
                 Fin (1/10), Fin (6/10), Fin (4/10), Fin (9/10),
                 Fin (1/10), Fin (6/10), Fin (4/10), Fin (9/10)]\<rparr>
       = Inr \<lparr>mode = Mode_L, size_im = (4, 4),
              im_data = [0, 255, 0, 255, 0, 255, 0, 255, 0, 255, 0, 255, 0, 255, 0, 255]\<rparr>"
proof (intro conjI impI)
  assume a: "shape m = [b, h, w, c] \<and> 0 < b \<and> 0 < c"
  then have s: "shape m = [b, h, w, c]" and p: "0 < b" "0 < c" by simp_all
  let ?img = "\<lparr>mode = Mode_L, size_im = (w, h),
                im_data = map (\<lambda>k. if greater_f (data m ! (k * c)) (1/2) then 255 else 0)
                              [0..<h * w]\<rparr>"
  have "\<forall>i<h. \<forall>j<w.
          (less_equal_f (at4 m 0 i j 0) (1/2) \<longrightarrow> getpixel ?img (j, i) = 0) \<and>
          (greater_f (at4 m 0 i j 0) (1/2) \<longrightarrow> getpixel ?img (j, i) = 255)"
    unfolding at4_first [OF s]
    using threshold_pixel [of ?img "\<lambda>k. data m ! (k * c)" h w] by simp
  with postprocess_mask_4 [OF s p]
  show "\<exists>img. postprocess_mask m = Inr img \<and>
         (\<forall>i<h. \<forall>j<w.
            (less_equal_f (at4 m 0 i j 0) (1/2) \<longrightarrow> getpixel img (j, i) = 0) \<and>
            (greater_f (at4 m 0 i j 0) (1/2) \<longrightarrow> getpixel img (j, i) = 255))"
    by blast
next
  assume a: "shape m = [h, w, c] \<and> 0 < c"
  then have s: "shape m = [h, w, c]" and p: "0 < c" by simp_all
  let ?img = "\<lparr>mode = Mode_L, size_im = (w, h),
                im_data = map (\<lambda>k. if greater_f (data m ! (k * c)) (1/2) then 255 else 0)
                              [0..<h * w]\<rparr>"
  have "\<forall>i<h. \<forall>j<w.
          (less_equal_f (at3 m i j 0) (1/2) \<longrightarrow> getpixel ?img (j, i) = 0) \<and>
          (greater_f (at3 m i j 0) (1/2) \<longrightarrow> getpixel ?img (j, i) = 255)"
    unfolding at3_first [OF s]
    using threshold_pixel [of ?img "\<lambda>k. data m ! (k * c)" h w] by simp
  with postprocess_mask_3 [OF s p]
  show "\<exists>img. postprocess_mask m = Inr img \<and>
         (\<forall>i<h. \<forall>j<w.
            (less_equal_f (at3 m i j 0) (1/2) \<longrightarrow> getpixel img (j, i) = 0) \<and>
            (greater_f (at3 m i j 0) (1/2) \<longrightarrow> getpixel img (j, i) = 255))"
    by blast
next
  assume a: "shape m = [h, w] \<and> wf_ndarray m"
  then have s: "shape m = [h, w]" and len: "length (data m) = h * w"
    by (simp_all add: wf_ndarray_def)
  let ?img = "\<lparr>mode = Mode_L, size_im = (w, h),
                im_data = map (\<lambda>x. if greater_f x (1/2) then 255 else 0) (data m)\<rparr>"
  have "im_data ?img = map (\<lambda>k. if greater_f (data m ! k) (1/2) then 255 else 0) [0..<h * w]"
    using len by (simp add: list_eq_iff_nth_eq)
  then have "\<forall>i<h. \<forall>j<w.
          (less_equal_f (at2 m i j) (1/2) \<longrightarrow> getpixel ?img (j, i) = 0) \<and>
          (greater_f (at2 m i j) (1/2) \<longrightarrow> getpixel ?img (j, i) = 255)"
    unfolding at2_offset [OF s]
    using threshold_pixel [of ?img "\<lambda>k. data m ! k" h w] by simp
  with postprocess_mask_2 [OF s]
  show "\<exists>img. postprocess_mask m = Inr img \<and>
         (\<forall>i<h. \<forall>j<w.
            (less_equal_f (at2 m i j) (1/2) \<longrightarrow> getpixel img (j, i) = 0) \<and>
            (greater_f (at2 m i j) (1/2) \<longrightarrow> getpixel img (j, i) = 255))"
    by blast
next
  show "postprocess_mask
        \<lparr>shape = [1, 4, 4, 1],
         data = [Fin (1/10), Fin (6/10), Fin (4/10), Fin (9/10),
                 Fin (1/10), Fin (6/10), Fin (4/10), Fin (9/10),
                 Fin (1/10), Fin (6/10), Fin (4/10), Fin (9/10),
                 Fin (1/10), Fin (6/10), Fin (4/10), Fin (9/10)]\<rparr>
       = Inr \<lparr>mode = Mode_L, size_im = (4, 4),
              im_data = [0, 255, 0, 255, 0, 255, 0, 255, 0, 255, 0, 255, 0, 255, 0, 255]\<rparr>"
    by (simp add: postprocess_mask_def getitem_0_ellipsis_0_def fromarray_def threshold_scale
        shape_threshold_scale upt_rec [of _ "numeral _"] upt_rec [of _ "Suc _"])
qed

text \<open>
  An instance of C4: one row 0.1, 0.6, 0.4, 0.9, read back pixel by pixel.
\<close>

theorem postprocess_mask_threshold_witness:
  "\<exists>img. postprocess_mask
            \<lparr>shape = [1, 1, 4, 1],
             data = [Fin (1/10), Fin (6/10), Fin (4/10), Fin (9/10)]\<rparr> = Inr img
      \<and> getpixel img (0, 0) = 0 \<and> getpixel img (1, 0) = 255
      \<and> getpixel img (2, 0) = 0 \<and> getpixel img (3, 0) = 255"
proof -
  let ?m = "\<lparr>shape = [1, 1, 4, 1],
             data = [Fin (1/10), Fin (6/10), Fin (4/10), Fin (9/10)]\<rparr>"
  from postprocess_mask_threshold [of ?m 1 1 4 1]
  obtain img where r: "postprocess_mask ?m = Inr img"
    and p: "\<forall>i<1. \<forall>j<4.
        (less_equal_f (at4 ?m 0 i j 0) (1/2) \<longrightarrow> getpixel img (j, i) = 0) \<and>
        (greater_f (at4 ?m 0 i j 0) (1/2) \<longrightarrow> getpixel img (j, i) = 255)"
    by auto
  from p have "getpixel img (0, 0) = 0" by (auto simp add: at4_def)
  moreover from p have "getpixel img (1, 0) = 255" by (auto simp add: at4_def)
  moreover from p have "getpixel img (2, 0) = 0" by (auto simp add: at4_def)
  moreover from p have "getpixel img (3, 0) = 255" by (auto simp add: at4_def)
  ultimately show ?thesis using r by blast
qed

text \<open>
  C6. For an array of 2 axes \<^verbatim>\<open>postprocess_mask\<close> returns an image whose array has
  the shape of the input and as many entries, entry \<open>k\<close> being 255 when entry \<open>k\<close>
  of the input is greater than 0.5 and 0 otherwise.
\<close>

theorem postprocess_mask_2_axes:
  assumes "shape m = [h, w]"
  shows "\<exists>img. postprocess_mask m = Inr img
           \<and> shape (np_array img) = shape m
           \<and> length (data (np_array img)) = length (data m)
           \<and> (\<forall>k < length (data m).
                 data (np_array img) ! k = (if greater_f (data m ! k) (1/2) then 255 else 0))"
  using assms by (simp add: postprocess_mask_2 [OF assms] np_array_def)

text \<open>
  An instance of C6: the row 0.7, 0.5 becomes 255, 0.
\<close>

theorem postprocess_mask_2_axes_witness:
  "\<exists>img. postprocess_mask \<lparr>shape = [1, 2], data = [Fin (7/10), Fin (1/2)]\<rparr> = Inr img
      \<and> shape (np_array img) = [1, 2]
      \<and> data (np_array img) ! 0 = 255 \<and> data (np_array img) ! 1 = 0"
  using postprocess_mask_2_axes [of "\<lparr>shape = [1, 2], data = [Fin (7/10), Fin (1/2)]\<rparr>" 1 2]
  by auto

text \<open>
  C7. \<^verbatim>\<open>postprocess_mask\<close> is idempotent on what it produces. Its result is an
  image; read back as an array (\<^verbatim>\<open>np.array\<close>, a \<^verbatim>\<open>uint8\<close> array of 2 axes, which
  numpy promotes for the comparison with 0.5) and given to \<^verbatim>\<open>postprocess_mask\<close> again,
  it yields the same image.
\<close>

theorem postprocess_mask_idempotent:
  assumes "postprocess_mask m = Inr img"
  shows "postprocess_mask (promote_float (np_array img)) = Inr img"
proof -
  obtain w h where wh: "size_im img = (w, h)" by (cases "size_im img")
  from postprocess_mask_result [OF assms]
  have L: "mode img = Mode_L" and v: "\<forall>p \<in> set (im_data img). p = 0 \<or> p = 255"
    by simp_all
  have s: "shape (promote_float (np_array img)) = [h, w]"
    using L wh by (simp add: promote_float_def np_array_def)
  have d: "data (promote_float (np_array img)) =
             map (\<lambda>x. Fin (real (unat x))) (im_data img)"
    using wh by (simp add: promote_float_def np_array_def)
  have "\<And>p. p \<in> set (im_data img) \<Longrightarrow>
          (if greater_f (Fin (real (unat p))) (1/2) then 255 else 0) = p"
    using v promote_threshold by blast
  then have "map (\<lambda>p. if greater_f (Fin (real (unat p))) (1/2) then 255 else 0)
                 (im_data img) = im_data img"
    by (rule map_idI)
  then have "map (\<lambda>x. if greater_f x (1/2) then 255 else 0)
            (data (promote_float (np_array img))) = im_data img"
    unfolding d map_map comp_def .
  with postprocess_mask_2 [OF s] L wh show ?thesis by simp
qed

text \<open>
  An instance of C7: a tensor of shape (1, 2, 1).
\<close>

theorem postprocess_mask_idempotent_witness:
  "postprocess_mask \<lparr>shape = [1, 2, 1], data = [Fin (7/10), Fin (1/2)]\<rparr>
     = Inr \<lparr>mode = Mode_L, size_im = (2, 1), im_data = [255, 0]\<rparr>
   \<and> postprocess_mask
        (promote_float (np_array \<lparr>mode = Mode_L, size_im = (2, 1), im_data = [255, 0]\<rparr>))
     = Inr \<lparr>mode = Mode_L, size_im = (2, 1), im_data = [255, 0]\<rparr>"
proof -
  have a: "postprocess_mask \<lparr>shape = [1, 2, 1], data = [Fin (7/10), Fin (1/2)]\<rparr>
     = Inr \<lparr>mode = Mode_L, size_im = (2, 1), im_data = [255, 0]\<rparr>"
    by (simp add: postprocess_mask_def getitem_ellipsis_0_def fromarray_def threshold_scale
        shape_threshold_scale upt_rec [of _ "numeral _"] upt_rec [of _ "Suc _"])
  from postprocess_mask_idempotent [OF a] a show ?thesis by simp
qed

text \<open>
  C10. The result depends on the first channel only. Two tensors of the same shape with
  4 axes that agree at batch index 0 and channel index 0, or with 3 axes that agree at
  channel index 0, give the same result, whatever their other entries are.
\<close>

theorem postprocess_mask_first_channel:
  "(shape m1 = [b, h, w, c] \<and> shape m2 = [b, h, w, c]
      \<and> (\<forall>i<h. \<forall>j<w. at4 m1 0 i j 0 = at4 m2 0 i j 0)
      \<longrightarrow> postprocess_mask m1 = postprocess_mask m2)
   \<and> (shape m1 = [h, w, c] \<and> shape m2 = [h, w, c]
      \<and> (\<forall>i<h. \<forall>j<w. at3 m1 i j 0 = at3 m2 i j 0)
      \<longrightarrow> postprocess_mask m1 = postprocess_mask m2)"
proof (intro conjI impI)
  assume a: "shape m1 = [b, h, w, c] \<and> shape m2 = [b, h, w, c]
      \<and> (\<forall>i<h. \<forall>j<w. at4 m1 0 i j 0 = at4 m2 0 i j 0)"
  then have s1: "shape m1 = [b, h, w, c]" and s2: "shape m2 = [b, h, w, c]" by simp_all
  from a have eq: "\<forall>i<h. \<forall>j<w. data m1 ! ((i * w + j) * c) = data m2 ! ((i * w + j) * c)"
    by (simp add: at4_first [OF s1] at4_first [OF s2])
  show "postprocess_mask m1 = postprocess_mask m2"
  proof (cases "b = 0 \<or> c = 0")
    case True
    then show ?thesis
      by (simp only: postprocess_mask_4_empty [OF s1 True] postprocess_mask_4_empty [OF s2 True])
  next
    case False
    then have p: "0 < b" "0 < c" by simp_all
    show ?thesis
      by (simp only: postprocess_mask_4 [OF s1 p] postprocess_mask_4 [OF s2 p]
          first_channel_cong [OF eq])
  qed
next
  assume a: "shape m1 = [h, w, c] \<and> shape m2 = [h, w, c]
      \<and> (\<forall>i<h. \<forall>j<w. at3 m1 i j 0 = at3 m2 i j 0)"
  then have s1: "shape m1 = [h, w, c]" and s2: "shape m2 = [h, w, c]" by simp_all
  from a have eq: "\<forall>i<h. \<forall>j<w. data m1 ! ((i * w + j) * c) = data m2 ! ((i * w + j) * c)"
    by (simp add: at3_first [OF s1] at3_first [OF s2])
  show "postprocess_mask m1 = postprocess_mask m2"
  proof (cases "c = 0")
    case True
    with s1 s2 show ?thesis by (simp add: postprocess_mask_3_empty)
  next
    case False
    then have p: "0 < c" by simp
    show ?thesis
      by (simp only: postprocess_mask_3 [OF s1 p] postprocess_mask_3 [OF s2 p]
          first_channel_cong [OF eq])
  qed
qed

text \<open>
  An instance of C10: two different tensors of shape (1, 2, 2) that agree on channel 0.
\<close>

theorem postprocess_mask_first_channel_witness:
  "\<lparr>shape = [1, 2, 2], data = [Fin (9/10), Fin 0, Fin (1/10), Fin 1]\<rparr>
     \<noteq> \<lparr>shape = [1, 2, 2], data = [Fin (9/10), Fin 1, Fin (1/10), Fin 0]\<rparr>
   \<and> postprocess_mask \<lparr>shape = [1, 2, 2], data = [Fin (9/10), Fin 0, Fin (1/10), Fin 1]\<rparr>
     = postprocess_mask \<lparr>shape = [1, 2, 2], data = [Fin (9/10), Fin 1, Fin (1/10), Fin 0]\<rparr>"
proof -
  let ?m1 = "\<lparr>shape = [1, 2, 2], data = [Fin (9/10), Fin 0, Fin (1/10), Fin 1]\<rparr>"
  let ?m2 = "\<lparr>shape = [1, 2, 2], data = [Fin (9/10), Fin 1, Fin (1/10), Fin 0]\<rparr>"
  have "\<forall>i<1. \<forall>j<2. at3 ?m1 i j 0 = at3 ?m2 i j 0"
    by (simp add: at3_def less_2_cases_iff)
  with postprocess_mask_first_channel [of ?m1 _ 1 2 2 ?m2]
  have "postprocess_mask ?m1 = postprocess_mask ?m2" by simp
  then show ?thesis by simp
qed

end
